theory Spec2Isabelle
  imports Complex_Main
begin

section \<open>The live-call monitoring page (LiveCalls)\<close>

text \<open>
  The React component \<open>LiveCalls\<close> keeps four pieces of state: the list of call
  sessions (\<open>liveCalls\<close>, the Session Store), the selected call id, and two flags
  \<open>isListening\<close> and \<open>isMuted\<close>. Every update of the list of sessions is a
  functional update \<open>setLiveCalls(prev => ...)\<close>, a function of the list at the time it
  is applied. The two flags are written differently: their handlers write the negation
  of the flag as it was when the button was rendered.

  A call session is the object literal of the source. \<open>status\<close> and \<open>sentiment\<close>
  are strings there. \<open>duration\<close> is a JavaScript number, a double; the source only
  ever makes it from whole-number literals by adding 1, so it holds a whole number, and
  it is an integer here. The field \<open>id\<close> is named \<open>id_call\<close>, since \<open>id\<close> is the
  identity function of HOL.
\<close>

record call =
  id_call :: string
  callerNumber :: string
  callerName :: string
  intent :: string
  sentiment :: string
  duration :: int
  startTime :: string
  status :: string

record LiveCalls_state =
  liveCalls :: "call list"
  selectedCall :: "string option"
  isListening :: bool
  isMuted :: bool

text \<open>
  The mock data the component starts from. The three \<open>startTime\<close> strings are
  renderings of the clock (\<open>new Date(Date.now() - 125000).toISOString()\<close>) and are
  parameters here.
\<close>

definition initialLiveCalls :: "string \<Rightarrow> string \<Rightarrow> string \<Rightarrow> call list" where
  "initialLiveCalls t1 t2 t3 =
     [\<lparr>id_call = ''live-1'', callerNumber = ''+91 98765 43210'', callerName = ''Rajesh Kumar'',
       intent = ''Booking Inquiry'', sentiment = ''positive'', duration = 125,
       startTime = t1, status = ''active''\<rparr>,
      \<lparr>id_call = ''live-2'', callerNumber = ''+91 98765 43211'', callerName = ''Priya Sharma'',
       intent = ''Room Service'', sentiment = ''neutral'', duration = 87,
       startTime = t2, status = ''active''\<rparr>,
      \<lparr>id_call = ''live-3'', callerNumber = ''+91 98765 43212'', callerName = ''Waiting...'',
       intent = ''Unknown'', sentiment = ''neutral'', duration = 23,
       startTime = t3, status = ''on_hold''\<rparr>]"

definition initialState :: "string \<Rightarrow> string \<Rightarrow> string \<Rightarrow> LiveCalls_state" where
  "initialState t1 t2 t3 =
     \<lparr>liveCalls = initialLiveCalls t1 t2 t3, selectedCall = None,
      isListening = False, isMuted = False\<rparr>"

subsection \<open>Duration ticker\<close>

text \<open>
  \<open>d + 1\<close> on a double \<open>d\<close> that holds a whole number. From \<open>- 2 ^ 53\<close> to below
  \<open>2 ^ 53\<close> (\<open>2 ^ 53 = 9007199254740992\<close>) the sum is a double and the result is exact.
  Beyond, the doubles are the multiples of 2 (of 4, 8, ... further out) and the sum is
  rounded to the nearest of them, a tie going to the one with the even significand: a
  double \<open>d\<close> that is 2 modulo 4 has the sum \<open>d + 1\<close> half way between \<open>d\<close> and
  \<open>d + 2\<close> and goes to \<open>d + 2\<close>, every other double stays \<open>d\<close>.
\<close>

definition plusOne :: "int \<Rightarrow> int" where
  "plusOne d =
     (if - 9007199254740992 \<le> d \<and> d < 9007199254740992 then d + 1
      else if d mod 4 = 2 then d + 2
      else d)"

text \<open>The body of the one-second interval: \<open>prev.map(call => ({...call, duration: call.duration + 1}))\<close>.\<close>

definition tick :: "LiveCalls_state \<Rightarrow> LiveCalls_state" where
  "tick s = s\<lparr>liveCalls := map (\<lambda>c. c\<lparr>duration := plusOne (duration c)\<rparr>) (liveCalls s)\<rparr>"

subsection \<open>Stats\<close>

text \<open>
  The object \<open>stats\<close> of the source is computed from \<open>liveCalls\<close> at every render;
  \<open>getStats\<close> is that computation as a function of the state.
\<close>

record stats =
  activeCalls :: nat
  waitingCalls :: nat
  totalAgents :: nat
  availableAgents :: nat

definition getStats :: "LiveCalls_state \<Rightarrow> stats" where
  "getStats s =
     \<lparr>activeCalls = length (filter (\<lambda>c. status c = ''active'') (liveCalls s)),
      waitingCalls = length (filter (\<lambda>c. status c = ''on_hold'') (liveCalls s)),
      totalAgents = 5,
      availableAgents = 2\<rparr>"

subsection \<open>Arrival and departure simulator\<close>

text \<open>
  The body of the ten-second interval reads the environment: \<open>Math.random()\<close> three
  times and the clock twice. Each random draw enters one expression of double
  arithmetic, and what the body uses is the value of that expression. These values are
  the fields of \<open>sim_env\<close>, in the order the source computes them:
  \<^item> \<open>arrival\<close>: whether \<open>Math.random() > 0.8\<close> holds;
  \<^item> \<open>now\<close>: \<open>Date.now()\<close>, the clock in milliseconds;
  \<^item> \<open>numberPart\<close>: \<open>Math.floor(Math.random() * 10000000000)\<close>, a whole number;
  \<^item> \<open>isoNow\<close>: \<open>new Date().toISOString()\<close>;
  \<^item> \<open>delay\<close>: \<open>Math.random() * 30000 + 10000\<close>, the milliseconds given to
    \<open>setTimeout\<close>.
\<close>

record sim_env =
  arrival :: bool
  now :: nat
  numberPart :: nat
  isoNow :: string
  delay :: real

text \<open>Decimal rendering of a non-negative whole number, as a template literal prints it.\<close>

fun showNat :: "nat \<Rightarrow> string" where
  "showNat n =
     (if n < 10 then [''0123456789'' ! n]
      else showNat (n div 10) @ [''0123456789'' ! (n mod 10)])"

declare showNat.simps [simp del]

definition newCall :: "sim_env \<Rightarrow> call" where
  "newCall e =
     \<lparr>id_call = ''live-'' @ showNat (now e),
      callerNumber = ''+91 '' @ showNat (numberPart e),
      callerName = ''Incoming Call...'',
      intent = ''Unknown'',
      sentiment = ''neutral'',
      duration = 0,
      startTime = isoNow e,
      status = ''on_hold''\<rparr>"

text \<open>
  One run of the interval body. The second component is the timer it starts with
  \<open>setTimeout\<close>: the id to remove and the delay in milliseconds.
\<close>

definition simulatorTick ::
  "sim_env \<Rightarrow> LiveCalls_state \<Rightarrow> LiveCalls_state \<times> (string \<times> real) option" where
  "simulatorTick e s =
     (if arrival e
      then (s\<lparr>liveCalls := liveCalls s @ [newCall e]\<rparr>,
            Some (id_call (newCall e), delay e))
      else (s, None))"

text \<open>The callback of that timer: \<open>prev.filter(call => call.id !== newCall.id)\<close>.\<close>

definition removalTimeout :: "string \<Rightarrow> LiveCalls_state \<Rightarrow> LiveCalls_state" where
  "removalTimeout i s = s\<lparr>liveCalls := filter (\<lambda>c. id_call c \<noteq> i) (liveCalls s)\<rparr>"

subsection \<open>Operator commands\<close>

text \<open>
  The outcomes the command interface of the specification names. The handlers of the
  source are functions without a \<open>return\<close> statement: what they return is \<open>None\<close>
  below, next to the state they leave.
\<close>

datatype outcome = Success | NotFound | InvalidTransition

definition handleCallAction ::
  "string \<Rightarrow> string \<Rightarrow> LiveCalls_state \<Rightarrow> outcome option \<times> LiveCalls_state" where
  "handleCallAction callId action s =
     (None,
      s\<lparr>liveCalls :=
          map (\<lambda>c. if id_call c = callId
                    then c\<lparr>status := (if action = ''answer'' then ''active'' else ''on_hold'')\<rparr>
                    else c)
              (liveCalls s)\<rparr>)"

definition endCall :: "string \<Rightarrow> LiveCalls_state \<Rightarrow> outcome option \<times> LiveCalls_state" where
  "endCall callId s =
     (let s1 = s\<lparr>liveCalls := filter (\<lambda>c. id_call c \<noteq> callId) (liveCalls s)\<rparr>
      in (None, if selectedCall s = Some callId then s1\<lparr>selectedCall := None\<rparr> else s1))"

text \<open>
  The two toggles are the click handlers \<open>setIsListening(!isListening)\<close> and
  \<open>setIsMuted(!isMuted)\<close>. The flag they negate is the one of the render that made the
  handler, the value the button was drawn with: it is the first argument here, and the
  state the handler runs in is the second.
\<close>

definition toggleListen :: "bool \<Rightarrow> LiveCalls_state \<Rightarrow> outcome option \<times> LiveCalls_state" where
  "toggleListen drawn s = (None, s\<lparr>isListening := \<not> drawn\<rparr>)"

definition toggleMute :: "bool \<Rightarrow> LiveCalls_state \<Rightarrow> outcome option \<times> LiveCalls_state" where
  "toggleMute drawn s = (None, s\<lparr>isMuted := \<not> drawn\<rparr>)"

text \<open>Clicking a card selects it; the close button of the details panel clears the selection.\<close>

definition selectCall :: "string \<Rightarrow> LiveCalls_state \<Rightarrow> LiveCalls_state" where
  "selectCall i s = s\<lparr>selectedCall := Some i\<rparr>"

definition closeDetails :: "LiveCalls_state \<Rightarrow> LiveCalls_state" where
  "closeDetails s = s\<lparr>selectedCall := None\<rparr>"

subsection \<open>The buttons of a call card\<close>

text \<open>
  The card of a call renders an answer button when the call is on hold, a listen and a
  mute button when it is active (each drawn from the flag of the component), and always
  an end button. A button is all an operator has to issue a command.
\<close>

datatype button = AnswerButton | ListenButton bool | MuteButton bool | EndButton

definition cardButtons :: "LiveCalls_state \<Rightarrow> call \<Rightarrow> button list" where
  "cardButtons s c =
     (if status c = ''on_hold'' then [AnswerButton] else []) @
     (if status c = ''active'' then [ListenButton (isListening s), MuteButton (isMuted s)] else []) @
     [EndButton]"

fun click :: "button \<Rightarrow> call \<Rightarrow> LiveCalls_state \<Rightarrow> outcome option \<times> LiveCalls_state" where
  "click AnswerButton c s = handleCallAction (id_call c) ''answer'' s"
| "click (ListenButton b) c s = toggleListen b s"
| "click (MuteButton b) c s = toggleMute b s"
| "click EndButton c s = endCall (id_call c) s"

subsection \<open>Runs of the component\<close>

text \<open>
  Everything that changes the state: the two intervals, a removal timer firing, and the
  operator's commands. A toggle carries the flag its button was drawn with, which a run
  leaves free. A run is a sequence of such events.
\<close>

datatype event =
    Tick
  | SimulatorTick sim_env
  | RemovalTimeout string
  | HandleCallAction string string
  | EndCall string
  | ToggleListen bool
  | ToggleMute bool
  | SelectCall string
  | CloseDetails

fun step :: "event \<Rightarrow> LiveCalls_state \<Rightarrow> LiveCalls_state" where
  "step Tick s = tick s"
| "step (SimulatorTick e) s = fst (simulatorTick e s)"
| "step (RemovalTimeout i) s = removalTimeout i s"
| "step (HandleCallAction i a) s = snd (handleCallAction i a s)"
| "step (EndCall i) s = snd (endCall i s)"
| "step (ToggleListen b) s = snd (toggleListen b s)"
| "step (ToggleMute b) s = snd (toggleMute b s)"
| "step (SelectCall i) s = selectCall i s"
| "step CloseDetails s = closeDetails s"

fun run :: "event list \<Rightarrow> LiveCalls_state \<Rightarrow> LiveCalls_state" where
  "run [] s = s"
| "run (e # es) s = run es (step e s)"

text \<open>
  The sessions of a list that an event does not remove: an end command and a removal
  timer remove the sessions of their id, every other event removes none.
\<close>

fun surviving :: "event \<Rightarrow> call list \<Rightarrow> call list" where
  "surviving (EndCall i) cs = filter (\<lambda>c. id_call c \<noteq> i) cs"
| "surviving (RemovalTimeout i) cs = filter (\<lambda>c. id_call c \<noteq> i) cs"
| "surviving e cs = cs"

section \<open>Properties\<close>

subsection \<open>Stats\<close>

lemma length_filter_disjoint:
  "(\<And>x. \<not> (P x \<and> Q x)) \<Longrightarrow> length (filter P xs) + length (filter Q xs) \<le> length xs"
  by (induction xs) auto

text \<open>
  C5: \<open>activeCalls\<close> is the number of positions of the list of sessions that hold a
  session with status \<open>active\<close>, \<open>waitingCalls\<close> the number of those with status
  \<open>on_hold\<close>; both are taken from the same list, and their sum never exceeds the
  number of sessions in it.
\<close>

theorem stats_counts_le_total:
  "activeCalls (getStats s) =
     card {i. i < length (liveCalls s) \<and> status (liveCalls s ! i) = ''active''} \<and>
   waitingCalls (getStats s) =
     card {i. i < length (liveCalls s) \<and> status (liveCalls s ! i) = ''on_hold''} \<and>
   activeCalls (getStats s) + waitingCalls (getStats s) \<le> length (liveCalls s)"
proof -
  have "\<And>c::call. \<not> (status c = ''active'' \<and> status c = ''on_hold'')"
    by auto
  then have "length (filter (\<lambda>c. status c = ''active'') (liveCalls s)) +
      length (filter (\<lambda>c. status c = ''on_hold'') (liveCalls s)) \<le> length (liveCalls s)"
    by (rule length_filter_disjoint)
  then show ?thesis
    unfolding getStats_def by (simp add: length_filter_conv_card)
qed

text \<open>
  C9: the agent numbers of the stats are the constants 5 and 2, whatever the sessions
  of the two states are, the empty list of sessions included.
\<close>

theorem stats_agents_constant:
  "totalAgents (getStats s) = totalAgents (getStats s') \<and>
   availableAgents (getStats s) = availableAgents (getStats s') \<and>
   totalAgents (getStats s) = 5 \<and> availableAgents (getStats s) = 2 \<and>
   totalAgents (getStats (s\<lparr>liveCalls := []\<rparr>)) = 5 \<and>
   availableAgents (getStats (s\<lparr>liveCalls := []\<rparr>)) = 2"
  by (simp add: getStats_def)

subsection \<open>Duration ticker\<close>

lemma plusOne_exact: "- 9007199254740992 \<le> d \<Longrightarrow> d < 9007199254740992 \<Longrightarrow> plusOne d = d + 1"
  by (simp add: plusOne_def)

lemma plusOne_ge: "d \<le> plusOne d"
  by (simp add: plusOne_def)

lemma plusOne_nonneg: "0 \<le> d \<Longrightarrow> 0 \<le> plusOne d"
  by (simp add: plusOne_def)

text \<open>
  C2 as stated does not hold for every state: \<open>duration\<close> is a double, and a session
  whose duration is \<open>2 ^ 53\<close> has the same duration after a tick, not one more.
\<close>

theorem tick_exactly_one_counterexample:
  "duration (liveCalls (tick \<lparr>liveCalls =
       [\<lparr>id_call = ''live-1'', callerNumber = ''+91 98765 43210'', callerName = ''Rajesh Kumar'',
         intent = ''Booking Inquiry'', sentiment = ''positive'', duration = 9007199254740992,
         startTime = ''a'', status = ''active''\<rparr>],
       selectedCall = None, isListening = False, isMuted = False\<rparr>) ! 0) = 9007199254740992 \<and>
   (9007199254740992 :: int) \<noteq> 9007199254740992 + 1"
  by (simp add: tick_def plusOne_def)

text \<open>
  C2, amended: one tick keeps the number of sessions and their order. The session at
  every position keeps every field but \<open>duration\<close>; its duration becomes exactly one
  higher when it lies from \<open>- 2 ^ 53\<close> to below \<open>2 ^ 53\<close>, and stays \<open>2 ^ 53\<close> when it
  is \<open>2 ^ 53\<close>. The rest of the state is untouched, a tick on an empty list of sessions
  changes nothing, and a session that arrives after the tick enters as it was created,
  with \<open>duration\<close> 0.
\<close>

theorem tick_increments_each_session:
  "length (liveCalls (tick s)) = length (liveCalls s) \<and>
   (\<forall>i < length (liveCalls s).
      - 9007199254740992 \<le> duration (liveCalls s ! i) \<and>
      duration (liveCalls s ! i) < 9007199254740992 \<longrightarrow>
      liveCalls (tick s) ! i = (liveCalls s ! i)\<lparr>duration := duration (liveCalls s ! i) + 1\<rparr>) \<and>
   (\<forall>i < length (liveCalls s).
      duration (liveCalls s ! i) = 9007199254740992 \<longrightarrow>
      liveCalls (tick s) ! i = liveCalls s ! i) \<and>
   (\<forall>i < length (liveCalls s).
      (liveCalls (tick s) ! i)\<lparr>duration := duration (liveCalls s ! i)\<rparr> = liveCalls s ! i) \<and>
   selectedCall (tick s) = selectedCall s \<and>
   isListening (tick s) = isListening s \<and>
   isMuted (tick s) = isMuted s \<and>
   (liveCalls s = [] \<longrightarrow> tick s = s) \<and>
   (arrival e \<longrightarrow>
      liveCalls (fst (simulatorTick e (tick s))) = liveCalls (tick s) @ [newCall e] \<and>
      duration (last (liveCalls (fst (simulatorTick e (tick s))))) = 0)"
proof -
  have exact: "\<forall>i < length (liveCalls s).
      - 9007199254740992 \<le> duration (liveCalls s ! i) \<and>
      duration (liveCalls s ! i) < 9007199254740992 \<longrightarrow>
      liveCalls (tick s) ! i = (liveCalls s ! i)\<lparr>duration := duration (liveCalls s ! i) + 1\<rparr>"
    by (simp add: tick_def plusOne_exact)
  have top: "\<forall>i < length (liveCalls s).
      duration (liveCalls s ! i) = 9007199254740992 \<longrightarrow>
      liveCalls (tick s) ! i = liveCalls s ! i"
    by (simp add: tick_def plusOne_def)
  have frame: "\<forall>i < length (liveCalls s).
      (liveCalls (tick s) ! i)\<lparr>duration := duration (liveCalls s ! i)\<rparr> = liveCalls s ! i"
    by (simp add: tick_def)
  have rest: "length (liveCalls (tick s)) = length (liveCalls s) \<and>
   selectedCall (tick s) = selectedCall s \<and>
   isListening (tick s) = isListening s \<and>
   isMuted (tick s) = isMuted s \<and>
   (liveCalls s = [] \<longrightarrow> tick s = s)"
    by (simp add: tick_def)
  have later: "arrival e \<longrightarrow>
      liveCalls (fst (simulatorTick e (tick s))) = liveCalls (tick s) @ [newCall e] \<and>
      duration (last (liveCalls (fst (simulatorTick e (tick s))))) = 0"
    by (simp add: simulatorTick_def newCall_def)
  from exact top frame rest later show ?thesis by (simp add: newCall_def)
qed

theorem tick_increments_each_session_witness:
  "list_all (\<lambda>c. - 9007199254740992 \<le> duration c \<and> duration c < 9007199254740992)
     (liveCalls (initialState ''a'' ''b'' ''c'')) \<and>
   map duration (liveCalls (initialState ''a'' ''b'' ''c'')) = [125, 87, 23] \<and>
   map duration (liveCalls (tick (initialState ''a'' ''b'' ''c''))) = [126, 88, 24] \<and>
   map status (liveCalls (tick (initialState ''a'' ''b'' ''c''))) =
     map status (liveCalls (initialState ''a'' ''b'' ''c'')) \<and>
   tick (initialState ''a'' ''b'' ''c'' \<lparr>liveCalls := []\<rparr>) =
     initialState ''a'' ''b'' ''c'' \<lparr>liveCalls := []\<rparr> \<and>
   map duration
     (liveCalls (fst (simulatorTick
        \<lparr>arrival = True, now = 7, numberPart = 0, isoNow = ''t'', delay = 10000\<rparr>
        (tick (initialState ''a'' ''b'' ''c''))))) = [126, 88, 24, 0]"
  using tick_increments_each_session
          [of "initialState ''a'' ''b'' ''c''"
              "\<lparr>arrival = True, now = 7, numberPart = 0, isoNow = ''t'', delay = 10000\<rparr>"]
    tick_increments_each_session [of "initialState ''a'' ''b'' ''c'' \<lparr>liveCalls := []\<rparr>"]
  by (simp add: initialState_def initialLiveCalls_def tick_def plusOne_def newCall_def)

subsection \<open>Ending a call\<close>

text \<open>
  C4: \<open>endCall\<close> reports no error, and after it no session of the list has the id. A
  second \<open>endCall\<close> on the same id reports no error either and leaves the whole state
  as it is. The same holds when the removal timer of the simulator took the session
  first (the list of sessions stays as the timer left it), and when the timer fires
  after the operator ended the call.
\<close>

theorem endCall_idempotent:
  "fst (endCall i s) = None \<and>
   i \<notin> set (map id_call (liveCalls (snd (endCall i s)))) \<and>
   fst (endCall i (snd (endCall i s))) = None \<and>
   snd (endCall i (snd (endCall i s))) = snd (endCall i s) \<and>
   i \<notin> set (map id_call (liveCalls (removalTimeout i s))) \<and>
   fst (endCall i (removalTimeout i s)) = None \<and>
   liveCalls (snd (endCall i (removalTimeout i s))) = liveCalls (removalTimeout i s) \<and>
   removalTimeout i (snd (endCall i s)) = snd (endCall i s)"
  by (auto simp: endCall_def removalTimeout_def Let_def)

subsection \<open>The action dispatcher\<close>

text \<open>
  C10: for an action string other than \<open>answer\<close>, \<open>handleCallAction\<close> sets the status
  of every session with the given id to \<open>on_hold\<close>, whatever it was, changes no other
  field of it, and leaves the sessions with another id and the rest of the state as
  they were.
\<close>

theorem handleCallAction_not_answer:
  assumes "action \<noteq> ''answer''"
  shows "fst (handleCallAction i action s) = None \<and>
   length (liveCalls (snd (handleCallAction i action s))) = length (liveCalls s) \<and>
   (\<forall>k < length (liveCalls s).
      liveCalls (snd (handleCallAction i action s)) ! k =
        (if id_call (liveCalls s ! k) = i then (liveCalls s ! k)\<lparr>status := ''on_hold''\<rparr>
         else liveCalls s ! k)) \<and>
   selectedCall (snd (handleCallAction i action s)) = selectedCall s \<and>
   isListening (snd (handleCallAction i action s)) = isListening s \<and>
   isMuted (snd (handleCallAction i action s)) = isMuted s"
  using assms by (simp add: handleCallAction_def)

theorem handleCallAction_not_answer_witness:
  "''end'' \<noteq> ''answer'' \<and>
   status (liveCalls (initialState ''a'' ''b'' ''c'') ! 0) = ''active'' \<and>
   status (liveCalls (snd (handleCallAction ''live-1'' ''end'' (initialState ''a'' ''b'' ''c''))) ! 0) =
     ''on_hold'' \<and>
   liveCalls (snd (handleCallAction ''live-1'' ''end'' (initialState ''a'' ''b'' ''c''))) ! 1 =
     liveCalls (initialState ''a'' ''b'' ''c'') ! 1 \<and>
   liveCalls (snd (handleCallAction ''live-1'' ''end'' (initialState ''a'' ''b'' ''c''))) ! 2 =
     liveCalls (initialState ''a'' ''b'' ''c'') ! 2"
proof -
  have h: "''end'' \<noteq> ''answer''" by simp
  show ?thesis
    using h handleCallAction_not_answer [OF h, of "''live-1''" "initialState ''a'' ''b'' ''c''"]
    by (simp add: initialState_def initialLiveCalls_def handleCallAction_def)
qed

subsection \<open>Commands whose precondition does not hold\<close>

lemma map_cond_ident: "(\<And>c. c \<in> set cs \<Longrightarrow> f c = c) \<Longrightarrow> map f cs = cs"
  by (induction cs) auto

lemma status_update_same: "status c = v \<Longrightarrow> c\<lparr>status := v\<rparr> = c"
  by auto

text \<open>
  C1 as stated does not hold. \<open>handleCallAction\<close> returns nothing, so answering the
  active session \<open>live-1\<close> of the initial state does not return \<open>InvalidTransition\<close>;
  and the dispatcher checks no precondition: answering a session whose status is
  \<open>transferring\<close> changes the list of sessions.
\<close>

theorem answer_on_active_counterexample:
  "status (liveCalls (initialState ''a'' ''b'' ''c'') ! 0) = ''active'' \<and>
   id_call (liveCalls (initialState ''a'' ''b'' ''c'') ! 0) = ''live-1'' \<and>
   fst (handleCallAction ''live-1'' ''answer'' (initialState ''a'' ''b'' ''c'')) \<noteq> Some InvalidTransition \<and>
   snd (handleCallAction ''live-1'' ''answer''
          (initialState ''a'' ''b'' ''c'' \<lparr>liveCalls :=
             [(liveCalls (initialState ''a'' ''b'' ''c'') ! 0)\<lparr>status := ''transferring''\<rparr>]\<rparr>)) \<noteq>
     initialState ''a'' ''b'' ''c'' \<lparr>liveCalls :=
       [(liveCalls (initialState ''a'' ''b'' ''c'') ! 0)\<lparr>status := ''transferring''\<rparr>]\<rparr>"
  by (simp add: initialState_def initialLiveCalls_def handleCallAction_def)

text \<open>
  C1, amended: \<open>handleCallAction\<close> returns nothing and keeps the number of sessions.
  \<open>answer\<close> leaves every session whose status is \<open>active\<close> as it is, and the whole
  state when every session of the id is active; any other action leaves every session
  whose status is \<open>on_hold\<close> as it is, and the whole state when every session of the
  id is on hold. The card of a session that is not on hold has no answer button, and the
  two toggles never touch the list of sessions.
\<close>

theorem unmet_precondition_keeps_session:
  "fst (handleCallAction i action s) = None \<and>
   length (liveCalls (snd (handleCallAction i action s))) = length (liveCalls s) \<and>
   (\<forall>k < length (liveCalls s). status (liveCalls s ! k) = ''active'' \<longrightarrow>
      liveCalls (snd (handleCallAction i ''answer'' s)) ! k = liveCalls s ! k) \<and>
   ((\<forall>c \<in> set (liveCalls s). id_call c = i \<longrightarrow> status c = ''active'') \<longrightarrow>
      snd (handleCallAction i ''answer'' s) = s) \<and>
   (\<forall>k < length (liveCalls s). action \<noteq> ''answer'' \<longrightarrow> status (liveCalls s ! k) = ''on_hold'' \<longrightarrow>
      liveCalls (snd (handleCallAction i action s)) ! k = liveCalls s ! k) \<and>
   (action \<noteq> ''answer'' \<longrightarrow> (\<forall>c \<in> set (liveCalls s). id_call c = i \<longrightarrow> status c = ''on_hold'') \<longrightarrow>
      snd (handleCallAction i action s) = s) \<and>
   (status c \<noteq> ''on_hold'' \<longrightarrow> AnswerButton \<notin> set (cardButtons s c)) \<and>
   liveCalls (snd (toggleMute b s)) = liveCalls s \<and>
   liveCalls (snd (toggleListen b s)) = liveCalls s"
proof -
  have a: "(\<forall>c \<in> set (liveCalls s). id_call c = i \<longrightarrow> status c = ''active'') \<Longrightarrow>
      snd (handleCallAction i ''answer'' s) = s"
    by (simp add: handleCallAction_def map_cond_ident status_update_same)
  have h: "action \<noteq> ''answer'' \<Longrightarrow>
      (\<forall>c \<in> set (liveCalls s). id_call c = i \<longrightarrow> status c = ''on_hold'') \<Longrightarrow>
      snd (handleCallAction i action s) = s"
    by (simp add: handleCallAction_def map_cond_ident status_update_same)
  have k1: "\<forall>k < length (liveCalls s). status (liveCalls s ! k) = ''active'' \<longrightarrow>
      liveCalls (snd (handleCallAction i ''answer'' s)) ! k = liveCalls s ! k"
    by (simp add: handleCallAction_def status_update_same)
  have k2: "\<forall>k < length (liveCalls s). action \<noteq> ''answer'' \<longrightarrow> status (liveCalls s ! k) = ''on_hold'' \<longrightarrow>
      liveCalls (snd (handleCallAction i action s)) ! k = liveCalls s ! k"
    by (simp add: handleCallAction_def status_update_same)
  have b: "status c \<noteq> ''on_hold'' \<longrightarrow> AnswerButton \<notin> set (cardButtons s c)"
    by (simp add: cardButtons_def)
  have r: "fst (handleCallAction i action s) = None \<and>
   length (liveCalls (snd (handleCallAction i action s))) = length (liveCalls s) \<and>
   liveCalls (snd (toggleMute b s)) = liveCalls s \<and>
   liveCalls (snd (toggleListen b s)) = liveCalls s"
    by (simp add: handleCallAction_def toggleMute_def toggleListen_def)
  from a h k1 k2 b r show ?thesis by simp
qed

theorem unmet_precondition_keeps_session_witness:
  "snd (handleCallAction ''live-1'' ''answer'' (initialState ''a'' ''b'' ''c'')) = initialState ''a'' ''b'' ''c'' \<and>
   snd (handleCallAction ''live-3'' ''hold'' (initialState ''a'' ''b'' ''c'')) = initialState ''a'' ''b'' ''c'' \<and>
   liveCalls (snd (handleCallAction ''live-1'' ''answer'' (initialState ''a'' ''b'' ''c''))) ! 0 =
     liveCalls (initialState ''a'' ''b'' ''c'') ! 0 \<and>
   status (liveCalls (initialState ''a'' ''b'' ''c'') ! 0) = ''active'' \<and>
   status (liveCalls (initialState ''a'' ''b'' ''c'') ! 2) = ''on_hold'' \<and>
   AnswerButton \<notin> set (cardButtons (initialState ''a'' ''b'' ''c'') (liveCalls (initialState ''a'' ''b'' ''c'') ! 0))"
  using unmet_precondition_keeps_session
          [of "''live-1''" "''hold''" "initialState ''a'' ''b'' ''c''"
              "liveCalls (initialState ''a'' ''b'' ''c'') ! 0" False]
        unmet_precondition_keeps_session
          [of "''live-3''" "''hold''" "initialState ''a'' ''b'' ''c''"
              "liveCalls (initialState ''a'' ''b'' ''c'') ! 0" False]
  by (simp add: initialState_def initialLiveCalls_def)

subsection \<open>Mute and listen\<close>

text \<open>
  C3 as stated does not hold. \<open>isMuted\<close> and \<open>isListening\<close> are flags of the component,
  not of a session: in the initial state, clicking the mute button of the active session
  \<open>live-1\<close> flips the mute button of the active session \<open>live-2\<close> as well.
\<close>

theorem toggles_counterexample:
  "status (liveCalls (initialState ''a'' ''b'' ''c'') ! 0) = ''active'' \<and>
   status (liveCalls (initialState ''a'' ''b'' ''c'') ! 1) = ''active'' \<and>
   cardButtons (initialState ''a'' ''b'' ''c'') (liveCalls (initialState ''a'' ''b'' ''c'') ! 1) =
     [ListenButton False, MuteButton False, EndButton] \<and>
   cardButtons (snd (click (MuteButton False) (liveCalls (initialState ''a'' ''b'' ''c'') ! 0)
                       (initialState ''a'' ''b'' ''c'')))
               (liveCalls (initialState ''a'' ''b'' ''c'') ! 1) =
     [ListenButton False, MuteButton True, EndButton]"
  by (simp add: initialState_def initialLiveCalls_def cardButtons_def toggleMute_def)

text \<open>
  C3, amended: the card of a session that is not active has no listen and no mute
  button; the card of an active session shows both, drawn from the two flags of the
  component. Clicking a button that the card of a session shows in the current state
  flips that one flag of the component. Whatever flag the button was drawn with, the
  click returns nothing, sets that one flag to the negation of the flag drawn, and
  leaves the other flag, the selection and the list of sessions (so every duration and
  status) as they are.
\<close>

theorem toggles_flip_component_flag:
  "(status c \<noteq> ''active'' \<longrightarrow>
      ListenButton b \<notin> set (cardButtons s c) \<and> MuteButton b \<notin> set (cardButtons s c)) \<and>
   (status c = ''active'' \<longrightarrow>
      cardButtons s c = [ListenButton (isListening s), MuteButton (isMuted s), EndButton]) \<and>
   (MuteButton b \<in> set (cardButtons s c) \<longrightarrow>
      isMuted (snd (click (MuteButton b) c s)) = (\<not> isMuted s)) \<and>
   (ListenButton b \<in> set (cardButtons s c) \<longrightarrow>
      isListening (snd (click (ListenButton b) c s)) = (\<not> isListening s)) \<and>
   fst (click (MuteButton b) c s) = None \<and>
   isMuted (snd (click (MuteButton b) c s)) = (\<not> b) \<and>
   isListening (snd (click (MuteButton b) c s)) = isListening s \<and>
   liveCalls (snd (click (MuteButton b) c s)) = liveCalls s \<and>
   selectedCall (snd (click (MuteButton b) c s)) = selectedCall s \<and>
   fst (click (ListenButton b) c s) = None \<and>
   isListening (snd (click (ListenButton b) c s)) = (\<not> b) \<and>
   isMuted (snd (click (ListenButton b) c s)) = isMuted s \<and>
   liveCalls (snd (click (ListenButton b) c s)) = liveCalls s \<and>
   selectedCall (snd (click (ListenButton b) c s)) = selectedCall s"
proof -
  have shown: "(status c \<noteq> ''active'' \<longrightarrow>
      ListenButton b \<notin> set (cardButtons s c) \<and> MuteButton b \<notin> set (cardButtons s c)) \<and>
   (status c = ''active'' \<longrightarrow>
      cardButtons s c = [ListenButton (isListening s), MuteButton (isMuted s), EndButton])"
    by (simp add: cardButtons_def)
  have mute: "MuteButton b \<in> set (cardButtons s c) \<longrightarrow>
      isMuted (snd (click (MuteButton b) c s)) = (\<not> isMuted s)"
    by (cases "status c = ''active''") (auto simp: cardButtons_def toggleMute_def)
  have listen: "ListenButton b \<in> set (cardButtons s c) \<longrightarrow>
      isListening (snd (click (ListenButton b) c s)) = (\<not> isListening s)"
    by (cases "status c = ''active''") (auto simp: cardButtons_def toggleListen_def)
  have frame: "fst (click (MuteButton b) c s) = None \<and>
   isMuted (snd (click (MuteButton b) c s)) = (\<not> b) \<and>
   isListening (snd (click (MuteButton b) c s)) = isListening s \<and>
   liveCalls (snd (click (MuteButton b) c s)) = liveCalls s \<and>
   selectedCall (snd (click (MuteButton b) c s)) = selectedCall s \<and>
   fst (click (ListenButton b) c s) = None \<and>
   isListening (snd (click (ListenButton b) c s)) = (\<not> b) \<and>
   isMuted (snd (click (ListenButton b) c s)) = isMuted s \<and>
   liveCalls (snd (click (ListenButton b) c s)) = liveCalls s \<and>
   selectedCall (snd (click (ListenButton b) c s)) = selectedCall s"
    by (simp add: toggleMute_def toggleListen_def)
  from shown mute listen frame show ?thesis by blast
qed

theorem toggles_flip_component_flag_witness:
  "status (liveCalls (initialState ''a'' ''b'' ''c'') ! 2) \<noteq> ''active'' \<and>
   MuteButton False \<notin> set (cardButtons (initialState ''a'' ''b'' ''c'') (liveCalls (initialState ''a'' ''b'' ''c'') ! 2)) \<and>
   ListenButton False \<notin> set (cardButtons (initialState ''a'' ''b'' ''c'') (liveCalls (initialState ''a'' ''b'' ''c'') ! 2)) \<and>
   status (liveCalls (initialState ''a'' ''b'' ''c'') ! 0) = ''active'' \<and>
   MuteButton False \<in> set (cardButtons (initialState ''a'' ''b'' ''c'') (liveCalls (initialState ''a'' ''b'' ''c'') ! 0)) \<and>
   ListenButton False \<in> set (cardButtons (initialState ''a'' ''b'' ''c'') (liveCalls (initialState ''a'' ''b'' ''c'') ! 0)) \<and>
   \<not> isMuted (initialState ''a'' ''b'' ''c'') \<and>
   isMuted (snd (click (MuteButton False) (liveCalls (initialState ''a'' ''b'' ''c'') ! 0)
                   (initialState ''a'' ''b'' ''c''))) \<and>
   isListening (snd (click (ListenButton False) (liveCalls (initialState ''a'' ''b'' ''c'') ! 0)
                   (initialState ''a'' ''b'' ''c''))) \<and>
   liveCalls (snd (click (MuteButton False) (liveCalls (initialState ''a'' ''b'' ''c'') ! 0)
                   (initialState ''a'' ''b'' ''c''))) = liveCalls (initialState ''a'' ''b'' ''c'')"
  using toggles_flip_component_flag
          [of "liveCalls (initialState ''a'' ''b'' ''c'') ! 2" False "initialState ''a'' ''b'' ''c''"]
        toggles_flip_component_flag
          [of "liveCalls (initialState ''a'' ''b'' ''c'') ! 0" False "initialState ''a'' ''b'' ''c''"]
  by (simp add: initialState_def initialLiveCalls_def)

subsection \<open>Commands on an id that is not in the list\<close>




subsection \<open>Arrival and departure simulator\<close>

text \<open>
  What a run of the simulator interval does to the state. When the arrival test fails,
  nothing changes and no timer is started. When it holds, one session is appended: its
  id is \<open>live-\<close> followed by the clock reading, its name and intent are the
  placeholders, its status is \<open>on_hold\<close>, its sentiment \<open>neutral\<close> and its duration 0;
  a timer is started for that id, and once the timer has fired no session of the list
  has the id. The id is new to the list only when no session there was made from the
  same clock reading: the timer removes every session of the id.
\<close>

lemma simulatorTick_effect:
  "(\<not> arrival e \<longrightarrow> simulatorTick e s = (s, None)) \<and>
   (arrival e \<longrightarrow>
      simulatorTick e s =
        (s\<lparr>liveCalls := liveCalls s @ [newCall e]\<rparr>, Some (id_call (newCall e), delay e))) \<and>
   id_call (newCall e) = ''live-'' @ showNat (now e) \<and>
   callerName (newCall e) = ''Incoming Call...'' \<and>
   intent (newCall e) = ''Unknown'' \<and>
   status (newCall e) = ''on_hold'' \<and>
   sentiment (newCall e) = ''neutral'' \<and>
   duration (newCall e) = 0 \<and>
   id_call (newCall e) \<notin>
     set (map id_call (liveCalls (removalTimeout (id_call (newCall e)) (fst (simulatorTick e s)))))"
  by (auto simp: simulatorTick_def newCall_def removalTimeout_def)

lemma showNat_examples:
  "showNat 1700000000123 = ''1700000000123''" "showNat 5000000000 = ''5000000000''"
  by (simp_all add: showNat.simps)

lemma showNat_one: "showNat (Suc 0) = ''1''"
  by (subst showNat.simps) simp

lemma simulatorTick_id_collision:
  "id_call (newCall \<lparr>arrival = True, now = 1, numberPart = 0, isoNow = ''t'', delay = 10000\<rparr>) =
     id_call (liveCalls (initialState ''a'' ''b'' ''c'') ! 0) \<and>
   map id_call
     (liveCalls (removalTimeout ''live-1''
        (fst (simulatorTick \<lparr>arrival = True, now = 1, numberPart = 0, isoNow = ''t'', delay = 10000\<rparr>
                (initialState ''a'' ''b'' ''c''))))) = [''live-2'', ''live-3'']"
  by (simp add: simulatorTick_def newCall_def removalTimeout_def initialState_def
        initialLiveCalls_def showNat_one)

subsection \<open>Durations along a run\<close>

lemma step_nonneg:
  "\<forall>c \<in> set (liveCalls s). 0 \<le> duration c \<Longrightarrow> \<forall>c \<in> set (liveCalls (step e s)). 0 \<le> duration c"
proof (cases e)
  case Tick
  assume "\<forall>c \<in> set (liveCalls s). 0 \<le> duration c"
  with Tick show ?thesis by (auto simp: tick_def plusOne_nonneg)
next
  case (SimulatorTick x)
  assume "\<forall>c \<in> set (liveCalls s). 0 \<le> duration c"
  with SimulatorTick show ?thesis by (auto simp: simulatorTick_def newCall_def)
next
  case (RemovalTimeout i)
  assume "\<forall>c \<in> set (liveCalls s). 0 \<le> duration c"
  with RemovalTimeout show ?thesis by (simp add: removalTimeout_def)
next
  case (HandleCallAction i a)
  assume "\<forall>c \<in> set (liveCalls s). 0 \<le> duration c"
  with HandleCallAction show ?thesis by (auto simp: handleCallAction_def)
next
  case (EndCall i)
  assume "\<forall>c \<in> set (liveCalls s). 0 \<le> duration c"
  with EndCall show ?thesis by (simp add: endCall_def Let_def)
next
  case (ToggleListen b)
  assume "\<forall>c \<in> set (liveCalls s). 0 \<le> duration c"
  with ToggleListen show ?thesis by (simp add: toggleListen_def)
next
  case (ToggleMute b)
  assume "\<forall>c \<in> set (liveCalls s). 0 \<le> duration c"
  with ToggleMute show ?thesis by (simp add: toggleMute_def)
next
  case (SelectCall i)
  assume "\<forall>c \<in> set (liveCalls s). 0 \<le> duration c"
  with SelectCall show ?thesis by (simp add: selectCall_def)
next
  case CloseDetails
  assume "\<forall>c \<in> set (liveCalls s). 0 \<le> duration c"
  with CloseDetails show ?thesis by (simp add: closeDetails_def)
qed

lemma run_nonneg:
  "\<forall>c \<in> set (liveCalls s). 0 \<le> duration c \<Longrightarrow> \<forall>c \<in> set (liveCalls (run es s)). 0 \<le> duration c"
proof (induction es arbitrary: s)
  case Nil
  then show ?case by simp
next
  case (Cons e es)
  from Cons.prems have "\<forall>c \<in> set (liveCalls (step e s)). 0 \<le> duration c"
    by (rule step_nonneg)
  then show ?case using Cons.IH by simp
qed

lemma initial_nonneg: "\<forall>c \<in> set (liveCalls (initialState t1 t2 t3)). 0 \<le> duration c"
  by (simp add: initialState_def initialLiveCalls_def)

lemma list_all2_map_right: "(\<And>x. R x (f x)) \<Longrightarrow> list_all2 R xs (map f xs)"
  by (induction xs) auto

lemma step_duration_mono:
  "list_all2 (\<lambda>c c'. id_call c' = id_call c \<and> duration c \<le> duration c')
     (surviving e (liveCalls s))
     (take (length (surviving e (liveCalls s))) (liveCalls (step e s)))"
proof (cases e)
  case Tick
  then show ?thesis by (simp add: tick_def list_all2_map_right plusOne_ge)
next
  case (SimulatorTick x)
  then show ?thesis by (simp add: simulatorTick_def list_all2_refl)
next
  case (RemovalTimeout i)
  then show ?thesis by (simp add: removalTimeout_def list_all2_refl)
next
  case (HandleCallAction i a)
  then show ?thesis by (simp add: handleCallAction_def list_all2_map_right)
next
  case (EndCall i)
  then show ?thesis by (simp add: endCall_def Let_def list_all2_refl)
next
  case (ToggleListen b)
  then show ?thesis by (simp add: toggleListen_def list_all2_refl)
next
  case (ToggleMute b)
  then show ?thesis by (simp add: toggleMute_def list_all2_refl)
next
  case (SelectCall i)
  then show ?thesis by (simp add: selectCall_def list_all2_refl)
next
  case CloseDetails
  then show ?thesis by (simp add: closeDetails_def list_all2_refl)
qed

text \<open>
  C7: in every state the component reaches from its initial state, by any sequence of
  ticks, simulator runs, removal timers and operator commands, every duration is at
  least 0; each single event preserves that. Across an event, the sessions it does not
  remove keep their order and their ids and none of their durations decreases; what the
  list holds beyond them is a new session with duration 0.
\<close>

theorem duration_nonneg_and_monotone:
  "(\<forall>c \<in> set (liveCalls (run es (initialState t1 t2 t3))). 0 \<le> duration c) \<and>
   ((\<forall>c \<in> set (liveCalls s). 0 \<le> duration c) \<longrightarrow>
      (\<forall>c \<in> set (liveCalls (step e s)). 0 \<le> duration c)) \<and>
   list_all2 (\<lambda>c c'. id_call c' = id_call c \<and> duration c \<le> duration c')
     (surviving e (liveCalls s))
     (take (length (surviving e (liveCalls s))) (liveCalls (step e s))) \<and>
   length (surviving e (liveCalls s)) \<le> length (liveCalls (step e s)) \<and>
   (\<forall>c' \<in> set (drop (length (surviving e (liveCalls s))) (liveCalls (step e s))). duration c' = 0)"
proof -
  have a: "\<forall>c \<in> set (liveCalls (run es (initialState t1 t2 t3))). 0 \<le> duration c"
    using initial_nonneg by (rule run_nonneg)
  have b: "(\<forall>c \<in> set (liveCalls s). 0 \<le> duration c) \<longrightarrow>
      (\<forall>c \<in> set (liveCalls (step e s)). 0 \<le> duration c)"
    using step_nonneg by blast
  have c: "length (surviving e (liveCalls s)) \<le> length (liveCalls (step e s)) \<and>
   (\<forall>c' \<in> set (drop (length (surviving e (liveCalls s))) (liveCalls (step e s))). duration c' = 0)"
    by (cases e)
       (simp_all add: tick_def simulatorTick_def removalTimeout_def handleCallAction_def
          endCall_def Let_def toggleListen_def toggleMute_def selectCall_def closeDetails_def
          newCall_def)
  from a b c step_duration_mono [of e s] show ?thesis by simp
qed

theorem duration_nonneg_and_monotone_witness:
  "list_all (\<lambda>c. 0 \<le> duration c) (liveCalls (initialState ''a'' ''b'' ''c'')) \<and>
   list_all (\<lambda>c. 0 \<le> duration c) (liveCalls (step (EndCall ''live-1'') (initialState ''a'' ''b'' ''c''))) \<and>
   map duration (surviving (EndCall ''live-1'') (liveCalls (initialState ''a'' ''b'' ''c''))) = [87, 23] \<and>
   map duration (liveCalls (step (EndCall ''live-1'') (initialState ''a'' ''b'' ''c''))) = [87, 23] \<and>
   map duration
     (liveCalls (run [Tick,
                      SimulatorTick \<lparr>arrival = True, now = 1700000000123, numberPart = 5000000000,
                                     isoNow = ''t'', delay = 25000\<rparr>,
                      HandleCallAction ''live-3'' ''answer'',
                      EndCall ''live-1'',
                      Tick]
                 (initialState ''a'' ''b'' ''c''))) = [89, 25, 1]"
  using duration_nonneg_and_monotone
          [of "[Tick,
                SimulatorTick \<lparr>arrival = True, now = 1700000000123, numberPart = 5000000000,
                               isoNow = ''t'', delay = 25000\<rparr>,
                HandleCallAction ''live-3'' ''answer'',
                EndCall ''live-1'',
                Tick]" "''a''" "''b''" "''c''" "initialState ''a'' ''b'' ''c''" "EndCall ''live-1''"]
  by (simp add: initialState_def initialLiveCalls_def tick_def plusOne_def simulatorTick_def
        newCall_def handleCallAction_def endCall_def Let_def showNat_examples)

end
